theory Spec2Isabelle
  imports Main "HOL-Library.Sublist"
begin

section \<open>Strings of the client (JavaScript) as character lists\<close>

text \<open>
  \<^verbatim>\<open>String.prototype.toLowerCase\<close> belongs to the JavaScript engine, not to the
  repository: the screen carries it as \<open>toLowerCase\<close> (see the record \<open>screen\<close>), and
  the functions that call it take it as the argument \<open>lc\<close>. On a text of ASCII characters
  the engine's function is the one below: a character between \<^verbatim>\<open>A\<close> and
  \<^verbatim>\<open>Z\<close> is moved to its lower-case form, every other character is kept as it is.
\<close>

definition lower_char :: "char \<Rightarrow> char" where
  "lower_char c =
     (let n = (of_char c :: nat) in if 65 \<le> n \<and> n \<le> 90 then char_of (n + 32) else c)"

definition ascii_lower :: "string \<Rightarrow> string" where
  "ascii_lower s = map lower_char s"

text \<open>
  \<^verbatim>\<open>s.includes(t)\<close>: \<open>t\<close> occurs in \<open>s\<close> as a contiguous run of characters,
  searched from every start position of \<open>s\<close>.
\<close>

fun str_includes :: "string \<Rightarrow> string \<Rightarrow> bool" where
  "str_includes [] t = (t = [])"
| "str_includes (c # cs) t = (prefix t (c # cs) \<or> str_includes cs t)"

text \<open>
  \<^verbatim>\<open>x || d\<close> on an optional string: an absent field (\<^verbatim>\<open>undefined\<close>) and the
  empty string are both falsy and give the default.
\<close>

definition js_or :: "string option \<Rightarrow> string \<Rightarrow> string" where
  "js_or x d = (case x of None \<Rightarrow> d | Some t \<Rightarrow> if t = [] then d else t)"

text \<open>
  \<^verbatim>\<open>x?.toLowerCase()\<close>: the optional chain gives \<^verbatim>\<open>undefined\<close> for an absent
  field.
\<close>

definition opt_toLowerCase :: "(string \<Rightarrow> string) \<Rightarrow> string option \<Rightarrow> string option" where
  "opt_toLowerCase lc x = (case x of None \<Rightarrow> None | Some t \<Rightarrow> Some (lc t))"

text \<open>
  A value placed in a template literal, \<^verbatim>\<open>`${x}`\<close>: an absent field is printed as
  the word \<^verbatim>\<open>undefined\<close>.
\<close>

definition template :: "string option \<Rightarrow> string" where
  "template x = (case x of None \<Rightarrow> ''undefined'' | Some t \<Rightarrow> t)"

section \<open>The chat list screen (app/(tabs)/chats.tsx)\<close>

subsection \<open>Data\<close>

text \<open>
  \<^verbatim>\<open>ChatListItem\<close>, with the fields the screen's logic reads. The screen reads
  \<^verbatim>\<open>listingTitle\<close> and \<^verbatim>\<open>recipientName\<close> through optional chains, so both may
  be absent (\<open>None\<close>).
\<close>

record ChatListItem =
  chatId :: string
  listingTitle :: "string option"
  recipientName :: "string option"
  listingOwnerFirebaseUID :: string

text \<open>The body of a \<^verbatim>\<open>chat-activity\<close> message, as the server may send it.\<close>

record activity_event =
  kind :: string
  scope :: "string option"

text \<open>
  The answer to the request for the thread list: \<^verbatim>\<open>res.ok\<close>, \<^verbatim>\<open>res.text()\<close>
  and \<^verbatim>\<open>res.json()\<close> (\<open>None\<close> when the body does not parse and \<^verbatim>\<open>json()\<close>
  throws).
\<close>

record response =
  ok :: bool
  text_body :: string
  json_body :: "ChatListItem list option"

text \<open>
  The state of \<^verbatim>\<open>ChatsScreen\<close>: the four \<^verbatim>\<open>useState\<close> cells and the signed-in
  user of \<^verbatim>\<open>useAuth\<close> (its uid), together with what the screen has done to the
  outside: calls of \<^verbatim>\<open>loadChats\<close> suspended at \<^verbatim>\<open>getIdToken\<close>, thread-list
  requests sent and not yet answered, the count of thread-list requests sent so far, the
  lines written with \<^verbatim>\<open>console.error\<close> and the alerts shown (title, message). The
  screen also carries the engine it runs on, as far as its logic uses it: the engine's
  \<^verbatim>\<open>String.prototype.toLowerCase\<close>, which no handler changes.
\<close>

record screen =
  toLowerCase :: "string \<Rightarrow> string"
  firebaseUser :: "string option"
  chatItems :: "ChatListItem list"
  loading :: bool
  searchTerm :: string
  filteredChatItems :: "ChatListItem list"
  awaitingToken :: nat
  awaitingResponse :: nat
  requestsSent :: nat
  consoleErrors :: "string list"
  alerts :: "(string \<times> string) list"

subsection \<open>The search filter effect\<close>

text \<open>The predicate given to \<^verbatim>\<open>chatItems.filter\<close> in the search effect.\<close>

definition matches_search :: "(string \<Rightarrow> string) \<Rightarrow> string \<Rightarrow> ChatListItem \<Rightarrow> bool" where
  "matches_search lc lowercasedTerm item =
     (let title = js_or (opt_toLowerCase lc (listingTitle item)) [];
          name = js_or (opt_toLowerCase lc (recipientName item)) []
      in str_includes title lowercasedTerm \<or> str_includes name lowercasedTerm)"

definition search_filter ::
    "(string \<Rightarrow> string) \<Rightarrow> string \<Rightarrow> ChatListItem list \<Rightarrow> ChatListItem list" where
  "search_filter lc term items =
     (if term = [] then items else filter (matches_search lc (lc term)) items)"

text \<open>
  The effect on \<^verbatim>\<open>[searchTerm, chatItems]\<close>: it writes \<^verbatim>\<open>filteredChatItems\<close> and
  nothing else.
\<close>

definition search_effect :: "screen \<Rightarrow> screen" where
  "search_effect s =
     s\<lparr>filteredChatItems := search_filter (toLowerCase s) (searchTerm s) (chatItems s)\<rparr>"










subsection \<open>Loading the thread list\<close>

text \<open>
  \<^verbatim>\<open>loadChats(isRefreshing)\<close> up to its first \<^verbatim>\<open>await\<close>: without a signed-in
  user it returns at once; otherwise it raises the loading flag unless it is a refresh,
  and suspends at \<^verbatim>\<open>getIdToken\<close>. Nothing here looks at the calls already under way.
\<close>

definition loadChats :: "bool \<Rightarrow> screen \<Rightarrow> screen" where
  "loadChats isRefreshing s =
     (case firebaseUser s of
        None \<Rightarrow> s
      | Some u \<Rightarrow>
          (let s1 = (if \<not> isRefreshing then s\<lparr>loading := True\<rparr> else s)
           in s1\<lparr>awaitingToken := awaitingToken s1 + 1\<rparr>))"

text \<open>
  The \<^verbatim>\<open>catch\<close> and \<^verbatim>\<open>finally\<close> blocks of \<^verbatim>\<open>loadChats\<close>: the error is
  written to the console, and the loading flag is lowered on every path.
\<close>

definition loadChats_catch :: "screen \<Rightarrow> screen" where
  "loadChats_catch s = s\<lparr>consoleErrors := consoleErrors s @ [''Failed to load chat threads'']\<rparr>"

definition loadChats_finally :: "screen \<Rightarrow> screen" where
  "loadChats_finally s = s\<lparr>loading := False\<rparr>"

text \<open>
  A suspended call resumes when \<^verbatim>\<open>getIdToken\<close> settles. With a token (\<open>Some\<close>) the
  request for \<^verbatim>\<open>/api/chat/threads\<close> is sent and the call waits for its answer; when
  \<^verbatim>\<open>getIdToken\<close> throws (\<open>None\<close>) the call ends through \<^verbatim>\<open>catch\<close> and
  \<^verbatim>\<open>finally\<close>. The result is what the caller of \<^verbatim>\<open>loadChats\<close> gets: \<open>Inr\<close> is
  a call that goes on or completes normally, \<open>Inl\<close> would be an error thrown to the
  caller. With no call suspended there is nothing to resume.
\<close>

definition loadChats_token :: "string option \<Rightarrow> screen \<Rightarrow> string + screen" where
  "loadChats_token tok s =
     (if awaitingToken s = 0 then Inr s
      else
        (let s0 = s\<lparr>awaitingToken := awaitingToken s - 1\<rparr>
         in case tok of
              None \<Rightarrow> Inr (loadChats_finally (loadChats_catch s0))
            | Some t \<Rightarrow>
                Inr (s0\<lparr>awaitingResponse := awaitingResponse s0 + 1,
                        requestsSent := requestsSent s0 + 1\<rparr>)))"

text \<open>
  The rest of the \<^verbatim>\<open>try\<close> block, once the request has settled: \<open>None\<close> is a
  request that failed in the network, and \<open>Inl\<close> is the error thrown inside the block.
\<close>

definition loadChats_try :: "response option \<Rightarrow> screen \<Rightarrow> string + screen" where
  "loadChats_try res s =
     (case res of
        None \<Rightarrow> Inl ''Network request failed''
      | Some r \<Rightarrow>
          if \<not> ok r then Inl (text_body r)
          else (case json_body r of
                  None \<Rightarrow> Inl ''JSON Parse error''
                | Some data \<Rightarrow> Inr (s\<lparr>chatItems := data\<rparr>)))"

text \<open>
  A call waiting for its answer resumes when the request settles: the \<^verbatim>\<open>try\<close> block,
  then \<^verbatim>\<open>catch\<close> on an error, then \<^verbatim>\<open>finally\<close>. The result is again what the
  caller of \<^verbatim>\<open>loadChats\<close> gets.
\<close>

definition loadChats_response :: "response option \<Rightarrow> screen \<Rightarrow> string + screen" where
  "loadChats_response res s =
     (if awaitingResponse s = 0 then Inr s
      else
        (let s0 = s\<lparr>awaitingResponse := awaitingResponse s - 1\<rparr>
         in case loadChats_try res s0 of
              Inl err \<Rightarrow> Inr (loadChats_finally (loadChats_catch s0))
            | Inr s1 \<Rightarrow> Inr (loadChats_finally s1)))"

text \<open>A request for the thread list fails in the network or is answered with a non-ok status.\<close>

definition fetch_failed :: "response option \<Rightarrow> bool" where
  "fetch_failed res = (case res of None \<Rightarrow> True | Some r \<Rightarrow> \<not> ok r)"

text \<open>The handler of the socket's \<^verbatim>\<open>chat-activity\<close> message: it takes no argument.\<close>

definition on_chat_activity :: "activity_event \<Rightarrow> screen \<Rightarrow> screen" where
  "on_chat_activity ev s = loadChats True s"

subsection \<open>Deleting a thread\<close>

text \<open>\<^verbatim>\<open>handleDelete\<close> itself only asks for confirmation.\<close>

definition handleDelete :: "string \<Rightarrow> screen \<Rightarrow> screen" where
  "handleDelete cid s =
     s\<lparr>alerts := alerts s @
        [(''Delete Chat'',
          ''Are you sure you want to delete this chat thread? This action cannot be undone.'')]\<rparr>"

text \<open>
  The \<^verbatim>\<open>try\<close> block of the Delete button, given how \<^verbatim>\<open>getIdToken\<close> settled
  (\<open>None\<close>: it threw) and how the DELETE request settled (\<open>None\<close>: it failed in the
  network, \<open>Some b\<close>: answered with \<^verbatim>\<open>res.ok\<close> \<open>= b\<close>). The list is filtered with
  the functional form of \<^verbatim>\<open>setChatItems\<close>, on the list at that moment.
\<close>

definition delete_try :: "string \<Rightarrow> string option \<Rightarrow> bool option \<Rightarrow> screen \<Rightarrow> string + screen" where
  "delete_try cid tok res s =
     (case firebaseUser s of
        None \<Rightarrow> Inl ''TypeError''
      | Some u \<Rightarrow>
          (case tok of
             None \<Rightarrow> Inl ''getIdToken failed''
           | Some t \<Rightarrow>
               (case res of
                  None \<Rightarrow> Inl ''Network request failed''
                | Some b \<Rightarrow>
                    if \<not> b then Inl ''Server responded with an error.''
                    else Inr (s\<lparr>chatItems := filter (\<lambda>item. chatId item \<noteq> cid) (chatItems s)\<rparr>))))"

definition delete_onPress :: "string \<Rightarrow> string option \<Rightarrow> bool option \<Rightarrow> screen \<Rightarrow> screen" where
  "delete_onPress cid tok res s =
     (case delete_try cid tok res s of
        Inl err \<Rightarrow>
          s\<lparr>consoleErrors := consoleErrors s @ [''Delete chat failed:''],
            alerts := alerts s @
              [(''Error'', ''Could not delete the chat thread. Please try again.'')]\<rparr>
      | Inr s1 \<Rightarrow> s1)"

subsection \<open>The screen as a transition system\<close>

text \<open>
  What can happen to the screen: it gains focus, a \<^verbatim>\<open>chat-activity\<close> message
  arrives, the user pulls to refresh, a suspended \<^verbatim>\<open>getIdToken\<close> settles, a thread-list
  request settles, the user types in the search box, swipes Delete, or the confirmed
  delete settles.
\<close>

datatype event =
    FocusGained
  | ChatActivity activity_event
  | PullToRefresh
  | TokenSettled "string option"
  | FetchSettled "response option"
  | SearchInput string
  | DeletePressed string
  | DeleteSettled string "string option" "bool option"

text \<open>The callers of \<^verbatim>\<open>loadChats\<close> drop its promise.\<close>

definition dropped :: "screen \<Rightarrow> string + screen \<Rightarrow> screen" where
  "dropped s r = (case r of Inl err \<Rightarrow> s | Inr s1 \<Rightarrow> s1)"

fun handle :: "event \<Rightarrow> screen \<Rightarrow> screen" where
  "handle FocusGained s = loadChats False s"
| "handle (ChatActivity ev) s = on_chat_activity ev s"
| "handle PullToRefresh s = loadChats True s"
| "handle (TokenSettled tok) s = dropped s (loadChats_token tok s)"
| "handle (FetchSettled res) s = dropped s (loadChats_response res s)"
| "handle (SearchInput term) s = s\<lparr>searchTerm := term\<rparr>"
| "handle (DeletePressed cid) s = handleDelete cid s"
| "handle (DeleteSettled cid tok res) s = delete_onPress cid tok res s"

text \<open>One step: the handler, then the render with its search effect.\<close>

definition step :: "screen \<Rightarrow> event \<Rightarrow> screen" where
  "step s e = search_effect (handle e s)"

definition run :: "screen \<Rightarrow> event list \<Rightarrow> screen" where
  "run s es = foldl step s es"

text \<open>
  The screen of a signed-in user showing the given list, with nothing under way. Its
  engine is given by the lower-casing of ASCII text only: the examples that start from
  this screen use ASCII text, on which every engine agrees with it.
\<close>

definition idle_screen :: "string \<Rightarrow> ChatListItem list \<Rightarrow> screen" where
  "idle_screen uid items =
     \<lparr>toLowerCase = ascii_lower, firebaseUser = Some uid, chatItems = items, loading = False, searchTerm = [],
      filteredChatItems = items, awaitingToken = 0, awaitingResponse = 0, requestsSent = 0,
      consoleErrors = [], alerts = []\<rparr>"

subsection \<open>Rendering a row\<close>

definition isMeTheOwner :: "string option \<Rightarrow> ChatListItem \<Rightarrow> bool" where
  "isMeTheOwner uid item = (uid = Some (listingOwnerFirebaseUID item))"

definition titleToDisplay :: "string option \<Rightarrow> ChatListItem \<Rightarrow> string option" where
  "titleToDisplay uid item =
     (if isMeTheOwner uid item then recipientName item
      else Some (js_or (listingTitle item) ''Conversation''))"

definition subtitleToDisplay :: "string option \<Rightarrow> ChatListItem \<Rightarrow> string" where
  "subtitleToDisplay uid item =
     (if isMeTheOwner uid item then ''Listing: '' @ template (listingTitle item)
      else ''From: '' @ template (recipientName item))"

subsection \<open>Registering for push notifications\<close>

text \<open>
  What \<^verbatim>\<open>getPermissionsAsync\<close> and \<^verbatim>\<open>requestPermissionsAsync\<close> answer, as
  \<^verbatim>\<open>normalizePermissionStatus\<close> reads it: \<^verbatim>\<open>status\<close> when it is a string,
  \<^verbatim>\<open>granted\<close> when it is a boolean. The answer itself may be null (\<open>None\<close>).
\<close>

record permission_response =
  status :: "string option"
  granted :: "bool option"

definition GRANTED :: string where "GRANTED = ''granted''"
definition DENIED :: string where "DENIED = ''denied''"
definition UNDETERMINED :: string where "UNDETERMINED = ''undetermined''"

definition normalizePermissionStatus :: "permission_response option \<Rightarrow> string" where
  "normalizePermissionStatus p =
     (case p of
        None \<Rightarrow> UNDETERMINED
      | Some obj \<Rightarrow>
          (case status obj of
             Some st \<Rightarrow> st
           | None \<Rightarrow>
               (case granted obj of
                  Some g \<Rightarrow> if g then GRANTED else DENIED
                | None \<Rightarrow> UNDETERMINED)))"

text \<open>
  The platform and the services the registration talks to. Each asynchronous call either
  answers (\<open>Some\<close>) or rejects (\<open>None\<close>); the answer of the backend to the POST is not
  read by the code.
\<close>

record push_env =
  android :: bool
  setNotificationChannelAsync :: "unit option"
  getPermissionsAsync :: "permission_response option option"
  requestPermissionsAsync :: "permission_response option option"
  getExpoPushTokenAsync :: "string option"
  getIdToken :: "string option"
  post_push_token :: "unit option"

text \<open>What the registration does to the outside, in order.\<close>

datatype effect =
    SetNotificationChannel
  | GetPermissions
  | RequestPermissions
  | Alert string string
  | GetExpoPushToken
  | GetIdToken
  | PostPushToken string string
  | ConsoleError string

text \<open>
  How the call ends for its caller: it completes (\<open>Fulfilled\<close>), or an error leaves it
  (\<open>Rejected\<close>).
\<close>

datatype outcome = Fulfilled | Rejected

text \<open>
  The \<^verbatim>\<open>try\<close> block that gets the push token and posts it with the user's id token;
  every error in it is caught and written to the console.
\<close>

definition send_push_token :: "push_env \<Rightarrow> effect list" where
  "send_push_token env =
     (case getExpoPushTokenAsync env of
        None \<Rightarrow> [GetExpoPushToken, ConsoleError ''Failed to send push token to backend'']
      | Some token \<Rightarrow>
          (case getIdToken env of
             None \<Rightarrow>
               [GetExpoPushToken, GetIdToken,
                ConsoleError ''Failed to send push token to backend'']
           | Some idToken \<Rightarrow>
               (case post_push_token env of
                  None \<Rightarrow>
                    [GetExpoPushToken, GetIdToken, PostPushToken token idToken,
                     ConsoleError ''Failed to send push token to backend'']
                | Some u \<Rightarrow> [GetExpoPushToken, GetIdToken, PostPushToken token idToken])))"

text \<open>The function from the second test of \<^verbatim>\<open>finalStatus\<close> on.\<close>

definition register_with_status :: "string \<Rightarrow> push_env \<Rightarrow> effect list \<times> outcome" where
  "register_with_status finalStatus env =
     (if finalStatus \<noteq> ''granted''
      then ([Alert ''Permission Denied'' ''Failed to get push token for notifications.''],
            Fulfilled)
      else (send_push_token env, Fulfilled))"

text \<open>The function from \<^verbatim>\<open>getPermissionsAsync\<close> on.\<close>

definition register_permissions :: "push_env \<Rightarrow> effect list \<times> outcome" where
  "register_permissions env =
     (case getPermissionsAsync env of
        None \<Rightarrow> ([GetPermissions], Rejected)
      | Some existing \<Rightarrow>
          (if normalizePermissionStatus existing \<noteq> ''granted''
           then (case requestPermissionsAsync env of
                   None \<Rightarrow> ([GetPermissions, RequestPermissions], Rejected)
                 | Some req \<Rightarrow>
                     (let (tr, r) = register_with_status (normalizePermissionStatus req) env
                      in ([GetPermissions, RequestPermissions] @ tr, r)))
           else (let (tr, r) = register_with_status (normalizePermissionStatus existing) env
                 in ([GetPermissions] @ tr, r))))"

definition registerForPushNotifications ::
    "string option \<Rightarrow> push_env \<Rightarrow> effect list \<times> outcome" where
  "registerForPushNotifications user env =
     (case user of
        None \<Rightarrow> ([], Fulfilled)
      | Some u \<Rightarrow>
          (if android env
           then (case setNotificationChannelAsync env of
                   None \<Rightarrow> ([SetNotificationChannel], Rejected)
                 | Some x \<Rightarrow>
                     (let (tr, r) = register_permissions env
                      in ([SetNotificationChannel] @ tr, r)))
           else register_permissions env))"

text \<open>
  The status the function ends up with, when the permission calls answer: the existing
  one, or, when that is not granted, the one of the single request.
\<close>

definition finalStatus :: "push_env \<Rightarrow> string option" where
  "finalStatus env =
     (case getPermissionsAsync env of
        None \<Rightarrow> None
      | Some existing \<Rightarrow>
          (if normalizePermissionStatus existing \<noteq> ''granted''
           then (case requestPermissionsAsync env of
                   None \<Rightarrow> None
                 | Some req \<Rightarrow> Some (normalizePermissionStatus req))
           else Some (normalizePermissionStatus existing)))"

definition is_token_effect :: "effect \<Rightarrow> bool" where
  "is_token_effect e =
     (case e of GetExpoPushToken \<Rightarrow> True | GetIdToken \<Rightarrow> True
              | PostPushToken t i \<Rightarrow> True | _ \<Rightarrow> False)"

definition is_console_error :: "effect \<Rightarrow> bool" where
  "is_console_error e = (case e of ConsoleError m \<Rightarrow> True | _ \<Rightarrow> False)"

section \<open>The socket server (index.ts of the backend)\<close>

text \<open>What the middleware stores in \<^verbatim>\<open>socket.data\<close>.\<close>

record socket_data =
  firebaseUID :: string
  mongoUserId :: string

text \<open>
  \<^verbatim>\<open>User.findOne\<close>: the query throws, finds nothing (null), or finds a user, of
  which the middleware keeps \<^verbatim>\<open>_id.toString()\<close>.
\<close>

datatype lookup = QueryFailed | NotFound | Found string

text \<open>
  The middleware given to \<^verbatim>\<open>io.use\<close>. Its two services are parameters:
  \<^verbatim>\<open>verifyIdToken\<close> gives the uid of a token or throws (\<open>None\<close>), and
  \<^verbatim>\<open>findOne\<close> looks the uid up. The handshake's token may be absent. \<open>Inl\<close> is the
  message of the error given to \<^verbatim>\<open>next\<close>, \<open>Inr\<close> is \<^verbatim>\<open>next()\<close> with the socket's
  data set.
\<close>

definition socket_auth ::
    "(string \<Rightarrow> string option) \<Rightarrow> (string \<Rightarrow> lookup) \<Rightarrow> string option \<Rightarrow> string + socket_data" where
  "socket_auth verifyIdToken findOne token =
     (case token of
        None \<Rightarrow> Inl ''Authentication token missing''
      | Some t \<Rightarrow>
          if t = [] then Inl ''Authentication token missing''
          else (case verifyIdToken t of
                  None \<Rightarrow> Inl ''Unauthorized''
                | Some uid \<Rightarrow>
                    (case findOne uid of
                       QueryFailed \<Rightarrow> Inl ''Unauthorized''
                     | NotFound \<Rightarrow> Inl ''User not found in database''
                     | Found mid \<Rightarrow> Inr \<lparr>firebaseUID = uid, mongoUserId = mid\<rparr>)))"

text \<open>
  A connection, with the rooms the server's handlers have put it in
  (\<^verbatim>\<open>socket.join\<close>) and not taken it out of (\<^verbatim>\<open>socket.leave\<close>).
\<close>

record connection =
  data :: socket_data
  rooms :: "string set"

definition inbox :: "socket_data \<Rightarrow> string" where
  "inbox d = ''user-inbox-'' @ mongoUserId d"

text \<open>The handler of \<^verbatim>\<open>connection\<close> and the three handlers it registers.\<close>

definition on_connection :: "socket_data \<Rightarrow> connection" where
  "on_connection d = \<lparr>data = d, rooms = {inbox d}\<rparr>"

definition joinRoom :: "string \<Rightarrow> connection \<Rightarrow> connection" where
  "joinRoom chat c = c\<lparr>rooms := insert chat (rooms c)\<rparr>"

definition leaveRoom :: "string \<Rightarrow> connection \<Rightarrow> connection" where
  "leaveRoom chat c = c\<lparr>rooms := rooms c - {chat}\<rparr>"

definition on_disconnect :: "connection \<Rightarrow> connection" where
  "on_disconnect c = c\<lparr>rooms := rooms c - {inbox (data c)}\<rparr>"

text \<open>
  A connection attempt: the middleware first; the \<^verbatim>\<open>connection\<close> handler runs only
  after \<^verbatim>\<open>next()\<close> without an error, and an error given to \<^verbatim>\<open>next\<close> refuses the
  connection with that message.
\<close>

datatype attempt = Refused string | Connected connection

definition connect ::
    "(string \<Rightarrow> string option) \<Rightarrow> (string \<Rightarrow> lookup) \<Rightarrow> string option \<Rightarrow> attempt" where
  "connect verifyIdToken findOne token =
     (case socket_auth verifyIdToken findOne token of
        Inl msg \<Rightarrow> Refused msg
      | Inr d \<Rightarrow> Connected (on_connection d))"

text \<open>
  Modelled from the spec: the Room Router's cleanup of a closing connection is done by the
  socket library, which is not among the repository's files. The specification says of it
  that it removes the connection from every channel it belongs to; the library does so
  before it emits \<^verbatim>\<open>disconnect\<close>.
\<close>

definition leaveAll :: "connection \<Rightarrow> connection" where
  "leaveAll c = c\<lparr>rooms := {}\<rparr>"

text \<open>
  A connection closes: the library's cleanup, then the server's own \<^verbatim>\<open>disconnect\<close>
  handler.
\<close>

definition close_socket :: "connection \<Rightarrow> connection" where
  "close_socket c = on_disconnect (leaveAll c)"

text \<open>The rooms an attempt leaves the connection in: none when it is refused.\<close>

definition rooms_of :: "attempt \<Rightarrow> string set" where
  "rooms_of a = (case a of Refused msg \<Rightarrow> {} | Connected c \<Rightarrow> rooms c)"

text \<open>The messages of a client on an open connection, handled in order.\<close>

datatype client_msg = JoinRoom string | LeaveRoom string

fun on_msg :: "connection \<Rightarrow> client_msg \<Rightarrow> connection" where
  "on_msg c (JoinRoom chat) = joinRoom chat c"
| "on_msg c (LeaveRoom chat) = leaveRoom chat c"

definition session :: "socket_data \<Rightarrow> client_msg list \<Rightarrow> connection" where
  "session d msgs = foldl on_msg (on_connection d) msgs"

section \<open>Properties\<close>

lemmas screen_defs = run_def step_def search_effect_def search_filter_def loadChats_def
  on_chat_activity_def loadChats_token_def loadChats_response_def loadChats_try_def
  loadChats_catch_def loadChats_finally_def dropped_def idle_screen_def delete_onPress_def
  delete_try_def handleDelete_def

subsection \<open>Search\<close>


















subsection \<open>Activity events and fetches\<close>

lemma step_activity:
  "firebaseUser s = Some u \<Longrightarrow>
   step s (ChatActivity ev) =
     s\<lparr>awaitingToken := awaitingToken s + 1,
       filteredChatItems := search_filter (toLowerCase s) (searchTerm s) (chatItems s)\<rparr>"
  by (simp add: step_def on_chat_activity_def loadChats_def search_effect_def)

lemma step_token:
  "awaitingToken s > 0 \<Longrightarrow>
   step s (TokenSettled (Some tok)) =
     s\<lparr>awaitingToken := awaitingToken s - 1,
       awaitingResponse := awaitingResponse s + 1,
       requestsSent := requestsSent s + 1,
       filteredChatItems := search_filter (toLowerCase s) (searchTerm s) (chatItems s)\<rparr>"
  by (simp add: step_def loadChats_token_def dropped_def search_effect_def)

lemma run_append: "run s (es @ fs) = run (run s es) fs"
  by (simp add: run_def)

lemma run_activities:
  "firebaseUser s = Some u \<Longrightarrow>
   firebaseUser (run s (map ChatActivity evs)) = Some u
   \<and> awaitingToken (run s (map ChatActivity evs)) = awaitingToken s + length evs
   \<and> awaitingResponse (run s (map ChatActivity evs)) = awaitingResponse s
   \<and> requestsSent (run s (map ChatActivity evs)) = requestsSent s
   \<and> chatItems (run s (map ChatActivity evs)) = chatItems s
   \<and> loading (run s (map ChatActivity evs)) = loading s"
proof (induction evs arbitrary: s)
  case Nil
  then show ?case by (simp add: run_def)
next
  case (Cons ev evs)
  have "firebaseUser (step s (ChatActivity ev)) = Some u"
    using Cons.prems by (simp add: step_activity)
  from Cons.IH [OF this] show ?case
    using Cons.prems by (simp add: run_def step_activity)
qed

lemma run_tokens:
  "length toks \<le> awaitingToken s \<Longrightarrow>
   awaitingToken (run s (map (\<lambda>t. TokenSettled (Some t)) toks)) = awaitingToken s - length toks
   \<and> awaitingResponse (run s (map (\<lambda>t. TokenSettled (Some t)) toks)) =
       awaitingResponse s + length toks
   \<and> requestsSent (run s (map (\<lambda>t. TokenSettled (Some t)) toks)) = requestsSent s + length toks
   \<and> chatItems (run s (map (\<lambda>t. TokenSettled (Some t)) toks)) = chatItems s
   \<and> loading (run s (map (\<lambda>t. TokenSettled (Some t)) toks)) = loading s"
proof (induction toks arbitrary: s)
  case Nil
  then show ?case by (simp add: run_def)
next
  case (Cons t toks)
  then have pos: "awaitingToken s > 0" by simp
  have "length toks \<le> awaitingToken (step s (TokenSettled (Some t)))"
    using Cons.prems pos by (simp add: step_token)
  from Cons.IH [OF this] show ?case
    using Cons.prems pos by (simp add: run_def step_token)
qed

text \<open>
  C1, as the specification states it, fails. A signed-in screen gains focus and sends its
  request; while that request is unanswered two activity events arrive. Each starts a call
  of its own, and once their tokens are there three requests have been sent and all three
  are unanswered at the same time: two further fetches, not at most one, and neither
  waited for the first to complete.
\<close>

theorem activity_not_coalesced_counterexample:
  "requestsSent
     (run (idle_screen ''u1'' [])
        [FocusGained, TokenSettled (Some ''tok''),
         ChatActivity \<lparr>kind = ''chat-activity'', scope = None\<rparr>,
         ChatActivity \<lparr>kind = ''chat-activity'', scope = None\<rparr>,
         TokenSettled (Some ''tok''), TokenSettled (Some ''tok'')]) = 3
   \<and> awaitingResponse
     (run (idle_screen ''u1'' [])
        [FocusGained, TokenSettled (Some ''tok''),
         ChatActivity \<lparr>kind = ''chat-activity'', scope = None\<rparr>,
         ChatActivity \<lparr>kind = ''chat-activity'', scope = None\<rparr>,
         TokenSettled (Some ''tok''), TokenSettled (Some ''tok'')]) = 3"
  by (simp add: screen_defs)

text \<open>
  C1, amended: the screen has no single-flight guard. For a signed-in user, every
  activity event starts its own call of \<^verbatim>\<open>loadChats\<close>, whatever is already in flight:
  N events leave N more calls suspended at the token, and when those N tokens arrive N
  more requests have been sent and N more are unanswered.
\<close>

theorem every_activity_event_fetches:
  assumes "firebaseUser s \<noteq> None" and "length toks = length evs"
  shows "awaitingToken (run s (map ChatActivity evs)) = awaitingToken s + length evs
    \<and> requestsSent (run s (map ChatActivity evs @ map (\<lambda>t. TokenSettled (Some t)) toks))
        = requestsSent s + length evs
    \<and> awaitingResponse (run s (map ChatActivity evs @ map (\<lambda>t. TokenSettled (Some t)) toks))
        = awaitingResponse s + length evs"
proof -
  from assms(1) obtain u where u: "firebaseUser s = Some u" by auto
  let ?s1 = "run s (map ChatActivity evs)"
  have a: "awaitingToken ?s1 = awaitingToken s + length evs"
    and b: "awaitingResponse ?s1 = awaitingResponse s"
    and c: "requestsSent ?s1 = requestsSent s"
    using run_activities [OF u, of evs] by simp_all
  have "length toks \<le> awaitingToken ?s1" using a assms(2) by simp
  from run_tokens [OF this] show ?thesis
    using a b c assms(2) by (simp add: run_append)
qed

text \<open>Two events, with different scopes, on a screen whose first request is in flight.\<close>

theorem every_activity_event_fetches_witness:
  "firebaseUser (run (idle_screen ''u1'' []) [FocusGained, TokenSettled (Some ''tok'')]) \<noteq> None
   \<and> requestsSent
     (run (run (idle_screen ''u1'' []) [FocusGained, TokenSettled (Some ''tok'')])
        (map ChatActivity [\<lparr>kind = ''chat-activity'', scope = None\<rparr>,
                           \<lparr>kind = ''chat-activity'', scope = Some ''T1''\<rparr>]
         @ map (\<lambda>t. TokenSettled (Some t)) [''tok'', ''tok''])) = 3"
  using every_activity_event_fetches
    [where s = "run (idle_screen ''u1'' []) [FocusGained, TokenSettled (Some ''tok'')]"
       and toks = "[''tok'', ''tok'']"
       and evs = "[\<lparr>kind = ''chat-activity'', scope = None\<rparr>,
                   \<lparr>kind = ''chat-activity'', scope = Some ''T1''\<rparr>]"]
  by (simp add: screen_defs)

text \<open>
  C10: the handler of an activity event is \<^verbatim>\<open>loadChats(true)\<close> whatever the event
  carries: two events with different payloads have the same effect. For a signed-in user
  that effect is one more call suspended at the token and nothing else: no cell of the
  screen is written from the event. When the token arrives, one request for the whole
  thread list has been sent, and the local list is still as it was.
\<close>

theorem activity_event_only_starts_fetch:
  "on_chat_activity ev s = loadChats True s
   \<and> on_chat_activity ev s = on_chat_activity ev' s
   \<and> (firebaseUser s \<noteq> None \<longrightarrow>
        on_chat_activity ev s = s\<lparr>awaitingToken := awaitingToken s + 1\<rparr>
        \<and> requestsSent (run s [ChatActivity ev, TokenSettled (Some tok)]) = requestsSent s + 1
        \<and> chatItems (run s [ChatActivity ev, TokenSettled (Some tok)]) = chatItems s)"
  by (auto simp: screen_defs)

theorem activity_event_only_starts_fetch_witness:
  "on_chat_activity \<lparr>kind = ''chat-activity'', scope = Some ''T1''\<rparr> (idle_screen ''u1'' [])
     = (idle_screen ''u1'' [])\<lparr>awaitingToken := 1\<rparr>
   \<and> requestsSent
       (run (idle_screen ''u1'' [])
          [ChatActivity \<lparr>kind = ''chat-activity'', scope = Some ''T1''\<rparr>,
           TokenSettled (Some ''tok'')]) = 1"
  using activity_event_only_starts_fetch
    [where s = "idle_screen ''u1'' []" and tok = "''tok''"
       and ev = "\<lparr>kind = ''chat-activity'', scope = Some ''T1''\<rparr>"
       and ev' = "\<lparr>kind = ''chat-activity'', scope = None\<rparr>"]
  by (auto simp: idle_screen_def)

subsection \<open>Snapshots, deletes and failures\<close>

lemma step_focus:
  "firebaseUser s = Some u \<Longrightarrow>
   step s FocusGained =
     s\<lparr>loading := True, awaitingToken := awaitingToken s + 1,
       filteredChatItems := search_filter (toLowerCase s) (searchTerm s) (chatItems s)\<rparr>"
  by (simp add: step_def loadChats_def search_effect_def)

lemma step_delete_ok:
  "firebaseUser s = Some u \<Longrightarrow>
   step s (DeleteSettled cid (Some tok) (Some True)) =
     s\<lparr>chatItems := filter (\<lambda>item. chatId item \<noteq> cid) (chatItems s),
       filteredChatItems :=
         search_filter (toLowerCase s) (searchTerm s) (filter (\<lambda>item. chatId item \<noteq> cid) (chatItems s))\<rparr>"
  by (simp add: step_def delete_onPress_def delete_try_def search_effect_def)

lemma response_ok:
  "0 < awaitingResponse s \<Longrightarrow> ok r \<Longrightarrow> json_body r = Some snapshot \<Longrightarrow>
   loadChats_response (Some r) s =
     Inr (s\<lparr>awaitingResponse := awaitingResponse s - 1, chatItems := snapshot,
            loading := False\<rparr>)"
  by (simp add: loadChats_response_def loadChats_try_def loadChats_finally_def)

lemma response_failed:
  "fetch_failed res \<Longrightarrow> 0 < awaitingResponse s \<Longrightarrow>
   loadChats_response res s =
     Inr (s\<lparr>awaitingResponse := awaitingResponse s - 1,
            consoleErrors := consoleErrors s @ [''Failed to load chat threads''],
            loading := False\<rparr>)"
  by (cases res)
    (simp_all add: fetch_failed_def loadChats_response_def loadChats_try_def
      loadChats_catch_def loadChats_finally_def)

lemma step_fetch_ok:
  "0 < awaitingResponse s \<Longrightarrow> ok r \<Longrightarrow> json_body r = Some snapshot \<Longrightarrow>
   step s (FetchSettled (Some r)) =
     s\<lparr>awaitingResponse := awaitingResponse s - 1, chatItems := snapshot,
       loading := False, filteredChatItems := search_filter (toLowerCase s) (searchTerm s) snapshot\<rparr>"
  by (simp add: step_def response_ok dropped_def search_effect_def)

lemma step_fetch_failed:
  "fetch_failed res \<Longrightarrow> 0 < awaitingResponse s \<Longrightarrow>
   step s (FetchSettled res) =
     s\<lparr>awaitingResponse := awaitingResponse s - 1,
       consoleErrors := consoleErrors s @ [''Failed to load chat threads''],
       loading := False,
       filteredChatItems := search_filter (toLowerCase s) (searchTerm s) (chatItems s)\<rparr>"
  by (simp add: step_def response_failed dropped_def search_effect_def)

text \<open>
  C2, as the specification states it, fails. The list shows thread T; a fetch is in flight
  when the user deletes T and the server answers ok, so T leaves the list; then the
  snapshot arrives, still holding T, and T is displayed again. The screen keeps no set of
  deleted ids and no time limit for one.
\<close>

theorem deleted_thread_reappears_counterexample:
  "filteredChatItems
     (run (idle_screen ''u1''
             [\<lparr>chatId = ''T'', listingTitle = Some ''Room A'', recipientName = Some ''Bo'',
               listingOwnerFirebaseUID = ''u1''\<rparr>])
        [ChatActivity \<lparr>kind = ''chat-activity'', scope = None\<rparr>,
         TokenSettled (Some ''tok''),
         DeleteSettled ''T'' (Some ''tok'') (Some True)]) = []
   \<and> filteredChatItems
     (run (idle_screen ''u1''
             [\<lparr>chatId = ''T'', listingTitle = Some ''Room A'', recipientName = Some ''Bo'',
               listingOwnerFirebaseUID = ''u1''\<rparr>])
        [ChatActivity \<lparr>kind = ''chat-activity'', scope = None\<rparr>,
         TokenSettled (Some ''tok''),
         DeleteSettled ''T'' (Some ''tok'') (Some True),
         FetchSettled (Some \<lparr>ok = True, text_body = [], json_body = Some
           [\<lparr>chatId = ''T'', listingTitle = Some ''Room A'', recipientName = Some ''Bo'',
             listingOwnerFirebaseUID = ''u1''\<rparr>]\<rparr>)])
     = [\<lparr>chatId = ''T'', listingTitle = Some ''Room A'', recipientName = Some ''Bo'',
         listingOwnerFirebaseUID = ''u1''\<rparr>]"
  by (simp add: screen_defs)

text \<open>
  C2, amended: a delete that the server answers ok takes the thread's id out of the local
  list. A snapshot that arrives afterwards with an ok answer replaces the local list by
  the fetched list as it is, with nothing filtered out: the deleted thread is in the local
  list again exactly when the snapshot still holds it. The displayed list is the search
  filter of that snapshot: with an empty search term it is the snapshot itself, so the
  deleted thread is shown again exactly when the snapshot holds it; with a search term
  the items shown are those of the snapshot that match the term.
\<close>

theorem snapshot_replaces_list:
  assumes "firebaseUser s \<noteq> None" and "0 < awaitingResponse s"
    and "ok r" and "json_body r = Some snapshot"
  shows "chatId ` set (chatItems (step s (DeleteSettled cid (Some tok) (Some True)))) =
           chatId ` set (chatItems s) - {cid}
    \<and> chatItems (run s [DeleteSettled cid (Some tok) (Some True), FetchSettled (Some r)])
         = snapshot
    \<and> (cid \<in> chatId ` set
          (chatItems (run s [DeleteSettled cid (Some tok) (Some True), FetchSettled (Some r)])))
        = (cid \<in> chatId ` set snapshot)
    \<and> filteredChatItems
         (run s [DeleteSettled cid (Some tok) (Some True), FetchSettled (Some r)])
         = search_filter (toLowerCase s) (searchTerm s) snapshot
    \<and> (searchTerm s = [] \<longrightarrow>
         filteredChatItems
           (run s [DeleteSettled cid (Some tok) (Some True), FetchSettled (Some r)])
           = snapshot)
    \<and> (searchTerm s \<noteq> [] \<longrightarrow>
         filteredChatItems
           (run s [DeleteSettled cid (Some tok) (Some True), FetchSettled (Some r)])
           = filter (matches_search (toLowerCase s) (toLowerCase s (searchTerm s))) snapshot)"
proof -
  from assms(1) obtain u where u: "firebaseUser s = Some u" by auto
  let ?d = "step s (DeleteSettled cid (Some tok) (Some True))"
  have d: "?d = s\<lparr>chatItems := filter (\<lambda>item. chatId item \<noteq> cid) (chatItems s),
       filteredChatItems :=
         search_filter (toLowerCase s) (searchTerm s)
           (filter (\<lambda>item. chatId item \<noteq> cid) (chatItems s))\<rparr>"
    by (rule step_delete_ok [OF u])
  have ids: "chatId ` set (chatItems ?d) = chatId ` set (chatItems s) - {cid}"
    unfolding d by auto
  have pending: "0 < awaitingResponse ?d" unfolding d using assms(2) by simp
  have f: "step ?d (FetchSettled (Some r)) =
      ?d\<lparr>awaitingResponse := awaitingResponse ?d - 1, chatItems := snapshot,
        loading := False,
        filteredChatItems := search_filter (toLowerCase ?d) (searchTerm ?d) snapshot\<rparr>"
    by (rule step_fetch_ok [OF pending assms(3) assms(4)])
  have st: "searchTerm ?d = searchTerm s" "toLowerCase ?d = toLowerCase s"
    unfolding d by simp_all
  have r: "run s [DeleteSettled cid (Some tok) (Some True), FetchSettled (Some r)] =
      step ?d (FetchSettled (Some r))"
    by (simp add: run_def)
  have items: "chatItems (step ?d (FetchSettled (Some r))) = snapshot"
    and shown: "filteredChatItems (step ?d (FetchSettled (Some r))) =
      search_filter (toLowerCase s) (searchTerm s) snapshot"
    unfolding f using st by simp_all
  show ?thesis
    unfolding r using ids items shown by (simp add: search_filter_def)
qed

text \<open>
  The snapshot still holds the deleted thread T, beside a second thread. With no search
  term both are in the list and on display. With the search term \<^verbatim>\<open>zzz\<close>, which
  matches neither, T is in the local list again and nothing is on display.
\<close>

theorem snapshot_replaces_list_witness:
  "chatItems
     (run (run (idle_screen ''u1''
                 [\<lparr>chatId = ''T'', listingTitle = Some ''Room A'', recipientName = Some ''Bo'',
                   listingOwnerFirebaseUID = ''u1''\<rparr>])
            [FocusGained, TokenSettled (Some ''tok'')])
        [DeleteSettled ''T'' (Some ''tok'') (Some True),
         FetchSettled (Some \<lparr>ok = True, text_body = [], json_body = Some
           [\<lparr>chatId = ''T'', listingTitle = Some ''Room A'', recipientName = Some ''Bo'',
             listingOwnerFirebaseUID = ''u1''\<rparr>,
            \<lparr>chatId = ''T2'', listingTitle = Some ''Loft'', recipientName = Some ''Cy'',
             listingOwnerFirebaseUID = ''u3''\<rparr>]\<rparr>)])
     = [\<lparr>chatId = ''T'', listingTitle = Some ''Room A'', recipientName = Some ''Bo'',
         listingOwnerFirebaseUID = ''u1''\<rparr>,
        \<lparr>chatId = ''T2'', listingTitle = Some ''Loft'', recipientName = Some ''Cy'',
         listingOwnerFirebaseUID = ''u3''\<rparr>]
   \<and> filteredChatItems
     (run (run (idle_screen ''u1''
                 [\<lparr>chatId = ''T'', listingTitle = Some ''Room A'', recipientName = Some ''Bo'',
                   listingOwnerFirebaseUID = ''u1''\<rparr>])
            [FocusGained, TokenSettled (Some ''tok'')])
        [DeleteSettled ''T'' (Some ''tok'') (Some True),
         FetchSettled (Some \<lparr>ok = True, text_body = [], json_body = Some
           [\<lparr>chatId = ''T'', listingTitle = Some ''Room A'', recipientName = Some ''Bo'',
             listingOwnerFirebaseUID = ''u1''\<rparr>,
            \<lparr>chatId = ''T2'', listingTitle = Some ''Loft'', recipientName = Some ''Cy'',
             listingOwnerFirebaseUID = ''u3''\<rparr>]\<rparr>)])
     = [\<lparr>chatId = ''T'', listingTitle = Some ''Room A'', recipientName = Some ''Bo'',
         listingOwnerFirebaseUID = ''u1''\<rparr>,
        \<lparr>chatId = ''T2'', listingTitle = Some ''Loft'', recipientName = Some ''Cy'',
         listingOwnerFirebaseUID = ''u3''\<rparr>]
   \<and> chatItems
     (run (run (idle_screen ''u1''
                 [\<lparr>chatId = ''T'', listingTitle = Some ''Room A'', recipientName = Some ''Bo'',
                   listingOwnerFirebaseUID = ''u1''\<rparr>])
            [SearchInput ''zzz'', FocusGained, TokenSettled (Some ''tok'')])
        [DeleteSettled ''T'' (Some ''tok'') (Some True),
         FetchSettled (Some \<lparr>ok = True, text_body = [], json_body = Some
           [\<lparr>chatId = ''T'', listingTitle = Some ''Room A'', recipientName = Some ''Bo'',
             listingOwnerFirebaseUID = ''u1''\<rparr>]\<rparr>)])
     = [\<lparr>chatId = ''T'', listingTitle = Some ''Room A'', recipientName = Some ''Bo'',
         listingOwnerFirebaseUID = ''u1''\<rparr>]
   \<and> filteredChatItems
     (run (run (idle_screen ''u1''
                 [\<lparr>chatId = ''T'', listingTitle = Some ''Room A'', recipientName = Some ''Bo'',
                   listingOwnerFirebaseUID = ''u1''\<rparr>])
            [SearchInput ''zzz'', FocusGained, TokenSettled (Some ''tok'')])
        [DeleteSettled ''T'' (Some ''tok'') (Some True),
         FetchSettled (Some \<lparr>ok = True, text_body = [], json_body = Some
           [\<lparr>chatId = ''T'', listingTitle = Some ''Room A'', recipientName = Some ''Bo'',
             listingOwnerFirebaseUID = ''u1''\<rparr>]\<rparr>)])
     = []"
proof -
  let ?T = "\<lparr>chatId = ''T'', listingTitle = Some ''Room A'', recipientName = Some ''Bo'',
             listingOwnerFirebaseUID = ''u1''\<rparr>"
  let ?T2 = "\<lparr>chatId = ''T2'', listingTitle = Some ''Loft'', recipientName = Some ''Cy'',
             listingOwnerFirebaseUID = ''u3''\<rparr>"
  let ?s0 = "run (idle_screen ''u1'' [?T]) [FocusGained, TokenSettled (Some ''tok'')]"
  let ?s1 = "run (idle_screen ''u1'' [?T])
               [SearchInput ''zzz'', FocusGained, TokenSettled (Some ''tok'')]"
  let ?r0 = "\<lparr>ok = True, text_body = [], json_body = Some [?T, ?T2]\<rparr>"
  let ?r1 = "\<lparr>ok = True, text_body = [], json_body = Some [?T]\<rparr>"
  have u0: "firebaseUser ?s0 \<noteq> None" and p0: "0 < awaitingResponse ?s0"
    and t0: "searchTerm ?s0 = []"
    by (simp_all add: screen_defs)
  have u1: "firebaseUser ?s1 \<noteq> None" and p1: "0 < awaitingResponse ?s1"
    and t1: "searchTerm ?s1 = ''zzz''" and e1: "toLowerCase ?s1 = ascii_lower"
    by (simp_all add: screen_defs)
  have none: "search_filter ascii_lower ''zzz'' [?T] = []"
    by code_simp
  have a: "ok ?r0" "json_body ?r0 = Some [?T, ?T2]" "ok ?r1" "json_body ?r1 = Some [?T]"
    by simp_all
  from snapshot_replaces_list [OF u0 p0 a(1) a(2), of "''T''" "''tok''"] t0
  have first: "chatItems (run ?s0 [DeleteSettled ''T'' (Some ''tok'') (Some True),
                  FetchSettled (Some ?r0)]) = [?T, ?T2]
      \<and> filteredChatItems (run ?s0 [DeleteSettled ''T'' (Some ''tok'') (Some True),
                  FetchSettled (Some ?r0)]) = [?T, ?T2]"
    by blast
  from snapshot_replaces_list [OF u1 p1 a(3) a(4), of "''T''" "''tok''"] t1 e1 none
  have second: "chatItems (run ?s1 [DeleteSettled ''T'' (Some ''tok'') (Some True),
                  FetchSettled (Some ?r1)]) = [?T]
      \<and> filteredChatItems (run ?s1 [DeleteSettled ''T'' (Some ''tok'') (Some True),
                  FetchSettled (Some ?r1)]) = []"
    by simp
  from first second show ?thesis by blast
qed

text \<open>
  C3, as the specification states it, fails in its last part. The request of a focused
  screen fails in the network: the call of \<^verbatim>\<open>loadChats\<close> still completes normally
  for its caller (\<open>Inr\<close>), no alert is shown, and the only trace of the error is a line
  on the console.
\<close>

theorem fetch_error_not_surfaced_counterexample:
  "loadChats_response None
     (run (idle_screen ''u1'' []) [FocusGained, TokenSettled (Some ''tok'')])
   = Inr ((idle_screen ''u1'' [])
           \<lparr>requestsSent := 1, consoleErrors := [''Failed to load chat threads'']\<rparr>)
   \<and> alerts ((idle_screen ''u1'' [])
           \<lparr>requestsSent := 1, consoleErrors := [''Failed to load chat threads'']\<rparr>) = []"
  by (simp add: screen_defs)

text \<open>
  C3, amended: when a thread-list request fails in the network or is answered with a
  non-ok status, the call that waited for it completes normally for its caller; the local
  list is kept, the loading flag is lowered, one line is written to the console and no
  alert is shown. Over a whole cycle from focus (the call, its token, the failed request)
  the local list is the one from before the fetch was issued.
\<close>

theorem fetch_failure_keeps_list:
  assumes "fetch_failed res"
  shows "(0 < awaitingResponse s \<longrightarrow>
           loadChats_response res s =
             Inr (s\<lparr>awaitingResponse := awaitingResponse s - 1,
                    consoleErrors := consoleErrors s @ [''Failed to load chat threads''],
                    loading := False\<rparr>))
    \<and> (firebaseUser s \<noteq> None \<longrightarrow>
         chatItems (run s [FocusGained, TokenSettled (Some tok), FetchSettled res]) = chatItems s
         \<and> loading (run s [FocusGained, TokenSettled (Some tok), FetchSettled res]) = False
         \<and> alerts (run s [FocusGained, TokenSettled (Some tok), FetchSettled res]) = alerts s
         \<and> consoleErrors (run s [FocusGained, TokenSettled (Some tok), FetchSettled res]) =
             consoleErrors s @ [''Failed to load chat threads''])"
proof (intro conjI impI)
  assume "0 < awaitingResponse s"
  then show "loadChats_response res s =
             Inr (s\<lparr>awaitingResponse := awaitingResponse s - 1,
                    consoleErrors := consoleErrors s @ [''Failed to load chat threads''],
                    loading := False\<rparr>)"
    by (rule response_failed [OF assms])
next
  assume "firebaseUser s \<noteq> None"
  then obtain u where u: "firebaseUser s = Some u" by auto
  let ?a = "step s FocusGained"
  let ?b = "step ?a (TokenSettled (Some tok))"
  have a: "?a = s\<lparr>loading := True, awaitingToken := awaitingToken s + 1,
       filteredChatItems := search_filter (toLowerCase s) (searchTerm s) (chatItems s)\<rparr>"
    by (rule step_focus [OF u])
  have fa: "chatItems ?a = chatItems s" "alerts ?a = alerts s"
    "consoleErrors ?a = consoleErrors s"
    by (simp_all add: a)
  have "0 < awaitingToken ?a" by (simp add: a)
  then have b: "?b = ?a\<lparr>awaitingToken := awaitingToken ?a - 1,
       awaitingResponse := awaitingResponse ?a + 1,
       requestsSent := requestsSent ?a + 1,
       filteredChatItems := search_filter (toLowerCase ?a) (searchTerm ?a) (chatItems ?a)\<rparr>"
    by (rule step_token)
  have "0 < awaitingResponse ?b" by (simp add: b)
  then have c: "step ?b (FetchSettled res) =
     ?b\<lparr>awaitingResponse := awaitingResponse ?b - 1,
       consoleErrors := consoleErrors ?b @ [''Failed to load chat threads''],
       loading := False,
       filteredChatItems := search_filter (toLowerCase ?b) (searchTerm ?b) (chatItems ?b)\<rparr>"
    by (rule step_fetch_failed [OF assms])
  have r: "run s [FocusGained, TokenSettled (Some tok), FetchSettled res] =
      step ?b (FetchSettled res)"
    by (simp add: run_def)
  have fields: "chatItems ?b = chatItems s" "alerts ?b = alerts s"
    "consoleErrors ?b = consoleErrors s"
    by (simp_all add: b fa)
  show "chatItems (run s [FocusGained, TokenSettled (Some tok), FetchSettled res]) = chatItems s"
    unfolding r c using fields by simp
  show "loading (run s [FocusGained, TokenSettled (Some tok), FetchSettled res]) = False"
    unfolding r c by simp
  show "alerts (run s [FocusGained, TokenSettled (Some tok), FetchSettled res]) = alerts s"
    unfolding r c using fields by simp
  show "consoleErrors (run s [FocusGained, TokenSettled (Some tok), FetchSettled res]) =
             consoleErrors s @ [''Failed to load chat threads'']"
    unfolding r c using fields by simp
qed

text \<open>A server error (non-ok answer) on a screen that shows one thread.\<close>

theorem fetch_failure_keeps_list_witness:
  "fetch_failed (Some \<lparr>ok = False, text_body = ''Server Error'', json_body = None\<rparr>)
   \<and> chatItems
       (run (idle_screen ''u1''
               [\<lparr>chatId = ''T'', listingTitle = Some ''Room A'', recipientName = Some ''Bo'',
                 listingOwnerFirebaseUID = ''u1''\<rparr>])
          [FocusGained, TokenSettled (Some ''tok''),
           FetchSettled (Some \<lparr>ok = False, text_body = ''Server Error'', json_body = None\<rparr>)])
     = [\<lparr>chatId = ''T'', listingTitle = Some ''Room A'', recipientName = Some ''Bo'',
         listingOwnerFirebaseUID = ''u1''\<rparr>]
   \<and> loading
       (run (idle_screen ''u1''
               [\<lparr>chatId = ''T'', listingTitle = Some ''Room A'', recipientName = Some ''Bo'',
                 listingOwnerFirebaseUID = ''u1''\<rparr>])
          [FocusGained, TokenSettled (Some ''tok''),
           FetchSettled (Some \<lparr>ok = False, text_body = ''Server Error'', json_body = None\<rparr>)])
     = False"
  using fetch_failure_keeps_list
    [where res = "Some \<lparr>ok = False, text_body = ''Server Error'', json_body = None\<rparr>"
       and tok = "''tok''"
       and s = "idle_screen ''u1''
               [\<lparr>chatId = ''T'', listingTitle = Some ''Room A'', recipientName = Some ''Bo'',
                 listingOwnerFirebaseUID = ''u1''\<rparr>]"]
  by (simp add: fetch_failed_def idle_screen_def)

text \<open>
  C9: asking for confirmation leaves the local list alone. When the confirmed delete is
  answered ok, the local list loses the items with the deleted thread's id and keeps every
  other item, in order, and nothing else on the screen changes. On every other outcome (no
  user, no token, a network failure or a non-ok answer) the local list is unchanged, the
  error is written to the console and the error alert is shown.
\<close>

theorem delete_only_after_ok:
  "chatItems (handleDelete cid s) = chatItems s
   \<and> (firebaseUser s \<noteq> None \<longrightarrow>
        delete_onPress cid (Some tok) (Some True) s =
          s\<lparr>chatItems := filter (\<lambda>item. chatId item \<noteq> cid) (chatItems s)\<rparr>)
   \<and> (firebaseUser s = None \<or> t = None \<or> res \<noteq> Some True \<longrightarrow>
        delete_onPress cid t res s =
          s\<lparr>consoleErrors := consoleErrors s @ [''Delete chat failed:''],
            alerts := alerts s @
              [(''Error'', ''Could not delete the chat thread. Please try again.'')]\<rparr>)"
  by (auto simp: handleDelete_def delete_onPress_def delete_try_def split: option.splits)

text \<open>Two threads; deleting one is answered ok, deleting the other with a non-ok status.\<close>

theorem delete_only_after_ok_witness:
  "chatItems
     (delete_onPress ''T1'' (Some ''tok'') (Some True)
        (idle_screen ''u1''
           [\<lparr>chatId = ''T1'', listingTitle = Some ''Room A'', recipientName = Some ''Bo'',
             listingOwnerFirebaseUID = ''u1''\<rparr>,
            \<lparr>chatId = ''T2'', listingTitle = Some ''Room B'', recipientName = Some ''Cy'',
             listingOwnerFirebaseUID = ''u3''\<rparr>]))
     = [\<lparr>chatId = ''T2'', listingTitle = Some ''Room B'', recipientName = Some ''Cy'',
         listingOwnerFirebaseUID = ''u3''\<rparr>]
   \<and> chatItems
     (delete_onPress ''T2'' (Some ''tok'') (Some False)
        (idle_screen ''u1''
           [\<lparr>chatId = ''T1'', listingTitle = Some ''Room A'', recipientName = Some ''Bo'',
             listingOwnerFirebaseUID = ''u1''\<rparr>,
            \<lparr>chatId = ''T2'', listingTitle = Some ''Room B'', recipientName = Some ''Cy'',
             listingOwnerFirebaseUID = ''u3''\<rparr>]))
     = [\<lparr>chatId = ''T1'', listingTitle = Some ''Room A'', recipientName = Some ''Bo'',
         listingOwnerFirebaseUID = ''u1''\<rparr>,
        \<lparr>chatId = ''T2'', listingTitle = Some ''Room B'', recipientName = Some ''Cy'',
         listingOwnerFirebaseUID = ''u3''\<rparr>]
   \<and> alerts
     (delete_onPress ''T2'' (Some ''tok'') (Some False)
        (idle_screen ''u1''
           [\<lparr>chatId = ''T1'', listingTitle = Some ''Room A'', recipientName = Some ''Bo'',
             listingOwnerFirebaseUID = ''u1''\<rparr>,
            \<lparr>chatId = ''T2'', listingTitle = Some ''Room B'', recipientName = Some ''Cy'',
             listingOwnerFirebaseUID = ''u3''\<rparr>]))
     = [(''Error'', ''Could not delete the chat thread. Please try again.'')]"
  using delete_only_after_ok
    [where cid = "''T1''" and tok = "''tok''" and t = "Some ''tok''" and res = "Some True"
       and s = "idle_screen ''u1''
           [\<lparr>chatId = ''T1'', listingTitle = Some ''Room A'', recipientName = Some ''Bo'',
             listingOwnerFirebaseUID = ''u1''\<rparr>,
            \<lparr>chatId = ''T2'', listingTitle = Some ''Room B'', recipientName = Some ''Cy'',
             listingOwnerFirebaseUID = ''u3''\<rparr>]"]
    delete_only_after_ok
    [where cid = "''T2''" and tok = "''tok''" and t = "Some ''tok''" and res = "Some False"
       and s = "idle_screen ''u1''
           [\<lparr>chatId = ''T1'', listingTitle = Some ''Room A'', recipientName = Some ''Bo'',
             listingOwnerFirebaseUID = ''u1''\<rparr>,
            \<lparr>chatId = ''T2'', listingTitle = Some ''Room B'', recipientName = Some ''Cy'',
             listingOwnerFirebaseUID = ''u3''\<rparr>]"]
  by (simp add: idle_screen_def)

subsection \<open>Rendering a row\<close>

text \<open>
  C6, as the specification states it, fails for a listing without a title. The viewer u2
  is the inquirer of a thread whose listing, owned by u1, has the empty title: the title
  shown is the fallback word, not the listing title.
\<close>

theorem inquirer_title_fallback_counterexample:
  "titleToDisplay (Some ''u2'')
     \<lparr>chatId = ''T'', listingTitle = Some [], recipientName = Some ''Ann'',
      listingOwnerFirebaseUID = ''u1''\<rparr> = Some ''Conversation''
   \<and> Some ''Conversation'' \<noteq> listingTitle
     \<lparr>chatId = ''T'', listingTitle = Some [], recipientName = Some ''Ann'',
      listingOwnerFirebaseUID = ''u1''\<rparr>"
  by (simp add: titleToDisplay_def isMeTheOwner_def js_or_def)

text \<open>
  C6, amended: title and subtitle are functions of the viewer's uid and the thread
  summary alone. When the viewer is the listing owner, the title is the counterpart's name
  and the subtitle is the listing title after \<^verbatim>\<open>Listing: \<close>. When the viewer is not
  the owner, the title is the listing title when there is a non-empty one and the word
  \<^verbatim>\<open>Conversation\<close> otherwise, and the subtitle is the counterpart's name after
  \<^verbatim>\<open>From: \<close>.
\<close>

theorem display_role_rule:
  "(uid = Some (listingOwnerFirebaseUID item) \<longrightarrow>
      titleToDisplay uid item = recipientName item
      \<and> (listingTitle item = Some t \<longrightarrow> subtitleToDisplay uid item = ''Listing: '' @ t))
   \<and> (uid \<noteq> Some (listingOwnerFirebaseUID item) \<longrightarrow>
      titleToDisplay uid item =
        Some (case listingTitle item of
                None \<Rightarrow> ''Conversation''
              | Some t' \<Rightarrow> if t' = [] then ''Conversation'' else t')
      \<and> (recipientName item = Some n \<longrightarrow> subtitleToDisplay uid item = ''From: '' @ n))"
  by (auto simp: titleToDisplay_def subtitleToDisplay_def isMeTheOwner_def js_or_def
      template_def split: option.splits)

text \<open>
  The thread about Room A between its owner u1 and the inquirer u2, as each of them sees
  it: the summary given to a viewer names the other participant.
\<close>

theorem display_role_rule_witness:
  "titleToDisplay (Some ''u1'')
     \<lparr>chatId = ''T'', listingTitle = Some ''Room A'', recipientName = Some ''Bo'',
      listingOwnerFirebaseUID = ''u1''\<rparr> = Some ''Bo''
   \<and> subtitleToDisplay (Some ''u1'')
     \<lparr>chatId = ''T'', listingTitle = Some ''Room A'', recipientName = Some ''Bo'',
      listingOwnerFirebaseUID = ''u1''\<rparr> = ''Listing: Room A''
   \<and> titleToDisplay (Some ''u2'')
     \<lparr>chatId = ''T'', listingTitle = Some ''Room A'', recipientName = Some ''Ann'',
      listingOwnerFirebaseUID = ''u1''\<rparr> = Some ''Room A''
   \<and> subtitleToDisplay (Some ''u2'')
     \<lparr>chatId = ''T'', listingTitle = Some ''Room A'', recipientName = Some ''Ann'',
      listingOwnerFirebaseUID = ''u1''\<rparr> = ''From: Ann''"
  using display_role_rule
    [where uid = "Some ''u1''" and t = "''Room A''" and n = "''Bo''"
       and item = "\<lparr>chatId = ''T'', listingTitle = Some ''Room A'',
                     recipientName = Some ''Bo'', listingOwnerFirebaseUID = ''u1''\<rparr>"]
    display_role_rule
    [where uid = "Some ''u2''" and t = "''Room A''" and n = "''Ann''"
       and item = "\<lparr>chatId = ''T'', listingTitle = Some ''Room A'',
                     recipientName = Some ''Ann'', listingOwnerFirebaseUID = ''u1''\<rparr>"]
  by simp

subsection \<open>Push notifications\<close>

lemma register_with_status_skips:
  "st \<noteq> ''granted'' \<Longrightarrow>
   register_with_status st env =
     ([Alert ''Permission Denied'' ''Failed to get push token for notifications.''], Fulfilled)"
  by (simp add: register_with_status_def)

lemma register_permissions_skips:
  assumes "finalStatus env = Some st" and "st \<noteq> ''granted''"
  shows "register_permissions env =
     ([GetPermissions, RequestPermissions,
       Alert ''Permission Denied'' ''Failed to get push token for notifications.''], Fulfilled)"
  using assms
  by (auto simp: finalStatus_def register_permissions_def register_with_status_skips
      split: option.splits if_splits)

text \<open>
  C8: for a signed-in user whose permission calls answer with a final status other than
  granted, the registration is skipped: the function completes normally, it neither asks
  for the push token nor for the id token nor posts anything to the backend, it writes no
  error to the console, it has prompted for the permission exactly once, and the last
  thing it does is to show the alert that tells the user.
\<close>

theorem permission_not_granted_skips_registration:
  assumes "user \<noteq> None"
    and "android env \<longrightarrow> setNotificationChannelAsync env \<noteq> None"
    and "finalStatus env = Some st" and "st \<noteq> ''granted''"
  shows "snd (registerForPushNotifications user env) = Fulfilled
    \<and> \<not> list_ex is_token_effect (fst (registerForPushNotifications user env))
    \<and> \<not> list_ex is_console_error (fst (registerForPushNotifications user env))
    \<and> last (fst (registerForPushNotifications user env)) =
         Alert ''Permission Denied'' ''Failed to get push token for notifications.''
    \<and> count_list (fst (registerForPushNotifications user env)) RequestPermissions = 1"
  using assms
  by (auto simp: registerForPushNotifications_def register_permissions_skips
      is_token_effect_def is_console_error_def split: option.splits)

text \<open>
  An Android device on which the permission is undetermined and the user then refuses the
  prompt; the token services would answer, and are not asked.
\<close>

theorem permission_not_granted_skips_registration_witness:
  "finalStatus
     \<lparr>android = True, setNotificationChannelAsync = Some (),
      getPermissionsAsync = Some (Some \<lparr>status = Some ''undetermined'', granted = None\<rparr>),
      requestPermissionsAsync = Some (Some \<lparr>status = None, granted = Some False\<rparr>),
      getExpoPushTokenAsync = Some ''ExponentPushToken[x]'', getIdToken = Some ''id'',
      post_push_token = Some ()\<rparr> = Some ''denied''
   \<and> snd (registerForPushNotifications (Some ''u1'')
     \<lparr>android = True, setNotificationChannelAsync = Some (),
      getPermissionsAsync = Some (Some \<lparr>status = Some ''undetermined'', granted = None\<rparr>),
      requestPermissionsAsync = Some (Some \<lparr>status = None, granted = Some False\<rparr>),
      getExpoPushTokenAsync = Some ''ExponentPushToken[x]'', getIdToken = Some ''id'',
      post_push_token = Some ()\<rparr>) = Fulfilled
   \<and> \<not> list_ex is_token_effect (fst (registerForPushNotifications (Some ''u1'')
     \<lparr>android = True, setNotificationChannelAsync = Some (),
      getPermissionsAsync = Some (Some \<lparr>status = Some ''undetermined'', granted = None\<rparr>),
      requestPermissionsAsync = Some (Some \<lparr>status = None, granted = Some False\<rparr>),
      getExpoPushTokenAsync = Some ''ExponentPushToken[x]'', getIdToken = Some ''id'',
      post_push_token = Some ()\<rparr>))"
  using permission_not_granted_skips_registration
    [where user = "Some ''u1''" and st = "''denied''"
       and env = "\<lparr>android = True, setNotificationChannelAsync = Some (),
      getPermissionsAsync = Some (Some \<lparr>status = Some ''undetermined'', granted = None\<rparr>),
      requestPermissionsAsync = Some (Some \<lparr>status = None, granted = Some False\<rparr>),
      getExpoPushTokenAsync = Some ''ExponentPushToken[x]'', getIdToken = Some ''id'',
      post_push_token = Some ()\<rparr>"]
  by (simp add: finalStatus_def normalizePermissionStatus_def DENIED_def)

subsection \<open>The socket server\<close>

text \<open>
  C5: a connection attempt without a token (absent or empty) is refused with the message
  of the missing token; one whose token does not verify is refused as unauthorized; one
  whose uid is not in the user directory is refused with the message of the unknown user.
  The three messages differ from each other. A refused attempt is in no room, and an
  attempt reaches the connection handler, which joins the inbox room, only with a
  non-empty token that verifies to a uid the directory holds.
\<close>

theorem unauthenticated_connection_refused:
  "((token = None \<or> token = Some []) \<longrightarrow>
      connect verifyIdToken findOne token = Refused ''Authentication token missing'')
   \<and> (token = Some t \<and> t \<noteq> [] \<and> verifyIdToken t = None \<longrightarrow>
      connect verifyIdToken findOne token = Refused ''Unauthorized'')
   \<and> (token = Some t \<and> t \<noteq> [] \<and> verifyIdToken t = Some uid \<and> findOne uid = NotFound \<longrightarrow>
      connect verifyIdToken findOne token = Refused ''User not found in database'')
   \<and> distinct [''Authentication token missing'', ''Unauthorized'', ''User not found in database'']
   \<and> (\<forall>msg. connect verifyIdToken findOne token = Refused msg \<longrightarrow>
        rooms_of (connect verifyIdToken findOne token) = {})
   \<and> (\<forall>c. connect verifyIdToken findOne token = Connected c \<longrightarrow>
        socket_auth verifyIdToken findOne token = Inr (data c)
        \<and> (\<exists>t' uid'. token = Some t' \<and> t' \<noteq> [] \<and> verifyIdToken t' = Some uid'
              \<and> findOne uid' = Found (mongoUserId (data c))))"
  by (auto simp: connect_def socket_auth_def rooms_of_def on_connection_def
      split: option.splits lookup.splits if_splits)

text \<open>
  A verifier that knows two tokens and a directory that holds the user of one of them: no
  token, a token that does not verify, and the token of a user the directory does not
  hold.
\<close>

theorem unauthenticated_connection_refused_witness:
  "connect (\<lambda>t. if t = ''good'' then Some ''f1'' else if t = ''ghost'' then Some ''f9'' else None)
     (\<lambda>u. if u = ''f1'' then Found ''m1'' else NotFound) None
     = Refused ''Authentication token missing''
   \<and> connect (\<lambda>t. if t = ''good'' then Some ''f1'' else if t = ''ghost'' then Some ''f9'' else None)
     (\<lambda>u. if u = ''f1'' then Found ''m1'' else NotFound) (Some ''bad'')
     = Refused ''Unauthorized''
   \<and> connect (\<lambda>t. if t = ''good'' then Some ''f1'' else if t = ''ghost'' then Some ''f9'' else None)
     (\<lambda>u. if u = ''f1'' then Found ''m1'' else NotFound) (Some ''ghost'')
     = Refused ''User not found in database''"
  using unauthenticated_connection_refused
    [where token = "None"
       and verifyIdToken = "\<lambda>t. if t = ''good'' then Some ''f1''
                             else if t = ''ghost'' then Some ''f9'' else None"
       and findOne = "\<lambda>u. if u = ''f1'' then Found ''m1'' else NotFound"]
    unauthenticated_connection_refused
    [where token = "Some ''bad''" and t = "''bad''"
       and verifyIdToken = "\<lambda>t. if t = ''good'' then Some ''f1''
                             else if t = ''ghost'' then Some ''f9'' else None"
       and findOne = "\<lambda>u. if u = ''f1'' then Found ''m1'' else NotFound"]
    unauthenticated_connection_refused
    [where token = "Some ''ghost''" and t = "''ghost''" and uid = "''f9''"
       and verifyIdToken = "\<lambda>t. if t = ''good'' then Some ''f1''
                             else if t = ''ghost'' then Some ''f9'' else None"
       and findOne = "\<lambda>u. if u = ''f1'' then Found ''m1'' else NotFound"]
  by simp

lemma rooms_joined:
  "rooms (foldl on_msg c (map JoinRoom chats)) = rooms c \<union> set chats"
  by (induction chats arbitrary: c) (auto simp: joinRoom_def)

text \<open>
  C4: when a connection closes, it is removed from every channel it belongs to, however
  many it had joined. A session may join any list of thread channels, and before the close
  it is a member of all of them and of its inbox channel; after the close, of whatever
  session, the membership is empty. The server's own handler keeps the connection's data
  and has nothing left to remove, and closing again changes nothing.
\<close>

theorem disconnect_empties_membership:
  "rooms (close_socket (session d msgs)) = {}
   \<and> rooms (close_socket c) = {}
   \<and> data (close_socket c) = data c
   \<and> on_disconnect (leaveAll c) = leaveAll c
   \<and> close_socket (close_socket c) = close_socket c
   \<and> rooms (session d (map JoinRoom chats)) = insert (inbox d) (set chats)"
  by (simp add: close_socket_def leaveAll_def on_disconnect_def session_def rooms_joined
      on_connection_def)

end
